theory Spec2Isabelle
  imports Complex_Main
begin

section \<open>The flight controller of crazyflie\_controller (controller\_no\_tf.py)\<close>

text \<open>
  The embedding follows \<^verbatim>\<open>crazyflie_controller/scripts/controller_no_tf.py\<close>.
  Python floats are modelled as reals, the integer thrust ramp as an \<^typ>\<open>int\<close>.
  Publishing on \<^verbatim>\<open>cmd_vel\<close> and the rospy log calls append to two traces kept in the
  controller record. Every clock reading is an explicit argument. An exception of the
  Python code is the \<open>Inl\<close> branch of a sum.
\<close>

subsection \<open>Messages\<close>

record Vector3 =
  vx :: real
  vy :: real
  vz :: real

record Quaternion =
  qx :: real
  qy :: real
  qz :: real
  qw :: real

record Pose =
  position :: Vector3
  orientation :: Quaternion

record TransformStamped =
  stamp :: real
  translation :: Vector3
  rotation :: Quaternion

record Twist =
  linear :: Vector3
  angular :: Vector3

definition Vector3_new :: Vector3 where
  "Vector3_new = \<lparr>vx = 0, vy = 0, vz = 0\<rparr>"

definition Twist_new :: Twist where
  "Twist_new = \<lparr>linear = Vector3_new, angular = Vector3_new\<rparr>"

definition Pose_new :: Pose where
  "Pose_new = \<lparr>position = Vector3_new, orientation = \<lparr>qx = 0, qy = 0, qz = 0, qw = 0\<rparr>\<rparr>"

datatype error = AttributeError | ZeroDivisionError

datatype log_entry =
    Warn_HighTFLatency real
  | Warn_WaitingFor string
  | Err_CouldNotTransform string
  | Info_TakeoffRequested
  | Info_LandingRequested

subsection \<open>The PID loop\<close>

text \<open>
  Modelled from the spec: the class \<^verbatim>\<open>PID\<close> of \<^verbatim>\<open>pid.py\<close>, which the controller
  imports and which is not among the source files. Section 3 gives the parameters in the
  order proportional gain, integral gain, derivative gain, output minimum, output maximum,
  label, and the mutable state as accumulated integral, previous error and previous
  timestamp. The previous timestamp is absent (\<open>None\<close>) until the first call after
  construction or reset.
\<close>

record PID =
  kp :: real
  ki :: real
  kd :: real
  minOutput :: real
  maxOutput :: real
  label :: string
  integral :: real
  previousError :: real
  previousTime :: "real option"

text \<open>Modelled from the spec: the constructor of \<^verbatim>\<open>PID\<close>, with the parameter order of section 3.\<close>

definition PID_new :: "real \<Rightarrow> real \<Rightarrow> real \<Rightarrow> real \<Rightarrow> real \<Rightarrow> string \<Rightarrow> PID" where
  "PID_new p i d lo hi nm =
     \<lparr>kp = p, ki = i, kd = d, minOutput = lo, maxOutput = hi, label = nm,
      integral = 0, previousError = 0, previousTime = None\<rparr>"

text \<open>Modelled from the spec: \<^verbatim>\<open>PID.reset\<close> (section 4.1): the integral accumulator and the
  previous-error state are zeroed, gains and limits are kept.\<close>

definition PID_reset :: "PID \<Rightarrow> PID" where
  "PID_reset p = p\<lparr>integral := 0, previousError := 0, previousTime := None\<rparr>"

definition clamp :: "real \<Rightarrow> real \<Rightarrow> real \<Rightarrow> real" where
  "clamp lo hi v = max lo (min hi v)"

text \<open>Modelled from the spec: \<^verbatim>\<open>PID.update(setpoint, measurement)\<close> (section 4.1), with the
  wall-clock reading of the call as the argument \<open>time\<close>. The error is setpoint minus
  measurement; on the first call since construction or reset the time step and the
  derivative term are zero; the raw sum of the three terms is formed, the integral is
  accumulated unconditionally, and the raw sum is clamped to the output interval. The
  spec gives no derivative for a zero time step; the term is zero there.\<close>

definition PID_update :: "PID \<Rightarrow> real \<Rightarrow> real \<Rightarrow> real \<Rightarrow> real \<times> PID" where
  "PID_update p time setpoint measurement =
     (let err = setpoint - measurement;
          dt = (case previousTime p of None \<Rightarrow> 0 | Some t0 \<Rightarrow> time - t0);
          derivative = (if dt = 0 then 0 else (err - previousError p) / dt);
          raw = kp p * err + ki p * integral p + kd p * derivative
      in (clamp (minOutput p) (maxOutput p) raw,
          p\<lparr>integral := integral p + err * dt, previousError := err,
            previousTime := Some time\<rparr>))"

subsection \<open>The controller object\<close>

datatype mode = Idle | Automatic | TakingOff | Landing

text \<open>The attributes of \<^verbatim>\<open>Controller\<close>, the local variable \<^verbatim>\<open>thrust\<close> of \<^verbatim>\<open>run\<close>,
  and the two output traces.\<close>

record Controller =
  frame :: string
  pidX :: PID
  pidY :: PID
  pidZ :: PID
  pidYaw :: PID
  state :: mode
  goal :: Pose
  lastTf :: "TransformStamped option"
  targetZ :: "real option"
  thrust :: int
  published :: "Twist list"
  logged :: "log_entry list"

definition Controller_init :: "string \<Rightarrow> Controller" where
  "Controller_init fr =
     \<lparr>frame = fr,
      pidX = PID_new 35 10 0 (- 20) 20 ''x'',
      pidY = PID_new (- 35) (- 10) 0 (- 20) 20 ''y'',
      pidZ = PID_new 4000 3000 2000 10000 60000 ''z'',
      pidYaw = PID_new (- 50) 0 0 (- 200) 200 ''yaw'',
      state = Idle,
      goal = Pose_new,
      lastTf = None,
      targetZ = None,
      thrust = 0,
      published = [],
      logged = []\<rparr>"

definition publish :: "Twist \<Rightarrow> Controller \<Rightarrow> Controller" where
  "publish msg c = c\<lparr>published := published c @ [msg]\<rparr>"

definition log :: "log_entry \<Rightarrow> Controller \<Rightarrow> Controller" where
  "log e c = c\<lparr>logged := logged c @ [e]\<rparr>"

text \<open>\<^verbatim>\<open>getTransform\<close>: \<open>now\<close> is the reading of \<^verbatim>\<open>rospy.Time.now()\<close>, in seconds. Reading
  \<^verbatim>\<open>self.lastTf.header\<close> of \<^verbatim>\<open>None\<close> raises. The result is an option because the
  callers test it for truth; the function itself always returns a triple.\<close>

definition getTransform ::
  "real \<Rightarrow> Controller \<Rightarrow> string \<Rightarrow> string \<Rightarrow>
     error + (Controller \<times> (Vector3 \<times> Quaternion \<times> real) option)" where
  "getTransform now c source_frame target_frame =
     (case lastTf c of
        None \<Rightarrow> Inl AttributeError
      | Some tfm \<Rightarrow>
          (let t = stamp tfm;
               delta = (now - t) * 1000;
               c' = (if delta > 25 then log (Warn_HighTFLatency delta) c else c)
           in Inr (c', Some (translation tfm, rotation tfm, t))))"

definition pidReset :: "Controller \<Rightarrow> Controller" where
  "pidReset c =
     (let c1 = c\<lparr>pidX := PID_reset (pidX c)\<rparr>;
          c2 = c1\<lparr>pidZ := PID_reset (pidZ c1)\<rparr>;
          c3 = c2\<lparr>pidZ := PID_reset (pidZ c2)\<rparr>
      in c3\<lparr>pidYaw := PID_reset (pidYaw c3)\<rparr>)"

definition poseChanged :: "Pose \<Rightarrow> Controller \<Rightarrow> Controller" where
  "poseChanged data c = c\<lparr>goal := data\<rparr>"

definition tfChanged :: "TransformStamped \<Rightarrow> Controller \<Rightarrow> Controller" where
  "tfChanged data c = c\<lparr>lastTf := Some data\<rparr>"

definition takeoff :: "Controller \<Rightarrow> Controller" where
  "takeoff c = (log Info_TakeoffRequested c)\<lparr>state := TakingOff\<rparr>"

definition land :: "Controller \<Rightarrow> Controller" where
  "land c = (log Info_LandingRequested c)\<lparr>state := Landing\<rparr>"

subsection \<open>The library calls of the pose transform\<close>

text \<open>
  The functions of \<^verbatim>\<open>tf.transformations\<close>, \<^verbatim>\<open>numpy\<close> and \<^verbatim>\<open>math\<close> that \<^verbatim>\<open>run\<close> calls,
  over the reals. A quaternion is the tuple \<open>(x, y, z, w)\<close> the code builds, a matrix is
  the list of its rows.
\<close>

type_synonym quat = "real \<times> real \<times> real \<times> real"

definition EPS :: real where
  "EPS = 4 / 2 ^ 52"

definition dot :: "real list \<Rightarrow> real list \<Rightarrow> real" where
  "dot u v = sum_list (map2 (*) u v)"

definition mat_dot :: "real list list \<Rightarrow> real list \<Rightarrow> real list" where
  "mat_dot m v = map (\<lambda>row. dot row v) m"

definition identity4 :: "real list list" where
  "identity4 = [[1, 0, 0, 0], [0, 1, 0, 0], [0, 0, 1, 0], [0, 0, 0, 1]]"

definition translation_matrix :: "real \<times> real \<times> real \<Rightarrow> real list list" where
  "translation_matrix d =
     (case d of (dx, dy, dz) \<Rightarrow>
        [[1, 0, 0, dx], [0, 1, 0, dy], [0, 0, 1, dz], [0, 0, 0, 1]])"

definition quaternion_conjugate :: "quat \<Rightarrow> quat" where
  "quaternion_conjugate q = (case q of (x, y, z, w) \<Rightarrow> (- x, - y, - z, w))"

definition quaternion_norm2 :: "quat \<Rightarrow> real" where
  "quaternion_norm2 q = (case q of (x, y, z, w) \<Rightarrow> x * x + y * y + z * z + w * w)"

definition quaternion_inverse :: "quat \<Rightarrow> quat" where
  "quaternion_inverse q =
     (case quaternion_conjugate q of (x, y, z, w) \<Rightarrow>
        (let n = quaternion_norm2 q in (x / n, y / n, z / n, w / n)))"

definition quaternion_matrix :: "quat \<Rightarrow> real list list" where
  "quaternion_matrix q =
     (let nq = quaternion_norm2 q in
      if nq < EPS then identity4
      else (case q of (x0, y0, z0, w0) \<Rightarrow>
        (let s = sqrt (2 / nq);
             x = x0 * s; y = y0 * s; z = z0 * s; w = w0 * s
         in [[1 - y * y - z * z, x * y - z * w, x * z + y * w, 0],
             [x * y + z * w, 1 - x * x - z * z, y * z - x * w, 0],
             [x * z - y * w, y * z + x * w, 1 - x * x - y * y, 0],
             [0, 0, 0, 1]])))"

definition atan2 :: "real \<Rightarrow> real \<Rightarrow> real" where
  "atan2 y x =
     (if 0 < x then arctan (y / x)
      else if x < 0 then (if 0 \<le> y then arctan (y / x) + pi else arctan (y / x) - pi)
      else if 0 < y then pi / 2
      else if y < 0 then - (pi / 2)
      else 0)"

text \<open>\<^verbatim>\<open>euler_from_matrix\<close> for the default axes \<^verbatim>\<open>'sxyz'\<close>.\<close>

definition euler_from_matrix :: "real list list \<Rightarrow> real \<times> real \<times> real" where
  "euler_from_matrix M =
     (let cy = sqrt (M ! 0 ! 0 * M ! 0 ! 0 + M ! 1 ! 0 * M ! 1 ! 0) in
      if cy > EPS then
        (atan2 (M ! 2 ! 1) (M ! 2 ! 2), atan2 (- (M ! 2 ! 0)) cy, atan2 (M ! 1 ! 0) (M ! 0 ! 0))
      else
        (atan2 (- (M ! 1 ! 2)) (M ! 1 ! 1), atan2 (- (M ! 2 ! 0)) cy, 0))"

definition euler_from_quaternion :: "quat \<Rightarrow> real \<times> real \<times> real" where
  "euler_from_quaternion q = euler_from_matrix (quaternion_matrix q)"

subsection \<open>The phases of one tick\<close>

text \<open>Lines 112 to 130 of \<^verbatim>\<open>run\<close>: the goal position in the body frame (the homogeneous
  vector \<^verbatim>\<open>target_pos\<close>) and the two Euler triples.\<close>

definition toBodyFrame ::
  "Vector3 \<Rightarrow> Quaternion \<Rightarrow> Pose \<Rightarrow> real list \<times> (real \<times> real \<times> real) \<times> (real \<times> real \<times> real)" where
  "toBodyFrame pos rot g =
     (let goal_vec = [vx (position g), vy (position g), vz (position g), 1];
          quaternion = (qx rot, qy rot, qz rot, qw rot);
          rot_matrix = quaternion_matrix (quaternion_inverse quaternion);
          trans_matrix = translation_matrix (- vx pos, - vy pos, - vz pos);
          target_pos = mat_dot rot_matrix (mat_dot trans_matrix goal_vec);
          eulerIs = euler_from_quaternion quaternion;
          quaternion' = (qx (orientation g), qy (orientation g), qz (orientation g),
                         qw (orientation g));
          eulerGoal = euler_from_quaternion quaternion'
      in (target_pos, eulerIs, eulerGoal))"

text \<open>The clock readings of one tick: \<^verbatim>\<open>rospy.Time.now()\<close> as read by the call of
  \<^verbatim>\<open>getTransform\<close> in each of the three phases that make one, and the wall clock as read
  by each of the four PID updates.\<close>

record readings =
  now_takeoff :: real
  now_landing :: real
  now_control :: real
  time_x :: real
  time_y :: real
  time_z :: real
  time_yaw :: real

definition bind_err :: "error + 'a \<Rightarrow> ('a \<Rightarrow> error + 'b) \<Rightarrow> error + 'b" where
  "bind_err r f = (case r of Inl e \<Rightarrow> Inl e | Inr v \<Rightarrow> f v)"

text \<open>Lines 76 to 93.\<close>

definition phase_TakingOff :: "readings \<Rightarrow> Controller \<Rightarrow> error + Controller" where
  "phase_TakingOff rd c =
     (if state c = TakingOff then
        bind_err (getTransform (now_takeoff rd) c ''/world'' (frame c)) (\<lambda>(c1, r).
          case r of
            Some (pos, quaternion, t) \<Rightarrow>
              if vz pos > 0.05 \<or> thrust c1 > 50000 then
                (let c2 = pidReset c1 in
                 if ki (pidZ c2) = 0 then Inl ZeroDivisionError
                 else Inr (c2\<lparr>pidZ := (pidZ c2)\<lparr>integral := real_of_int (thrust c2) / ki (pidZ c2)\<rparr>,
                              targetZ := Some 0.5,
                              state := Automatic,
                              thrust := 0\<rparr>))
              else
                (let c2 = c1\<lparr>thrust := thrust c1 + 100\<rparr>;
                     msg = Twist_new\<lparr>linear := (linear Twist_new)\<lparr>vz := real_of_int (thrust c2)\<rparr>\<rparr>
                 in Inr (publish msg c2))
          | None \<Rightarrow> Inr (log (Err_CouldNotTransform (frame c1)) c1))
      else Inr c)"

text \<open>Lines 95 to 105.\<close>

definition phase_Landing :: "readings \<Rightarrow> Controller \<Rightarrow> error + Controller" where
  "phase_Landing rd c =
     (if state c = Landing then
        (let c0 = c\<lparr>goal := (goal c)\<lparr>position := (position (goal c))\<lparr>vz := 0.05\<rparr>\<rparr>\<rparr> in
         bind_err (getTransform (now_landing rd) c0 ''/world'' (frame c0)) (\<lambda>(c1, r).
           case r of
             Some (pos, quaternion, t) \<Rightarrow>
               if vz pos \<le> 0.1 then Inr (publish Twist_new (c1\<lparr>state := Idle\<rparr>))
               else Inr c1
           | None \<Rightarrow> Inr (log (Err_CouldNotTransform (frame c1)) c1)))
      else Inr c)"

text \<open>Lines 107 to 140.\<close>

definition phase_Control :: "readings \<Rightarrow> Controller \<Rightarrow> error + Controller" where
  "phase_Control rd c =
     (if state c = Automatic \<or> state c = Landing then
        bind_err (getTransform (now_control rd) c ''/world'' (frame c)) (\<lambda>(c1, r).
          case r of
            Some (pos, quaternion, t) \<Rightarrow>
              (case toBodyFrame pos quaternion (goal c1) of
                 (target_pos, eulerIs, eulerGoal) \<Rightarrow>
                   (let (ox, px) = PID_update (pidX c1) (time_x rd) 0 (target_pos ! 0 / target_pos ! 3);
                        (oy, py) = PID_update (pidY c1) (time_y rd) 0 (target_pos ! 1 / target_pos ! 3);
                        (oz, pz) = PID_update (pidZ c1) (time_z rd) 0 (target_pos ! 2 / target_pos ! 3);
                        (oyaw, pyaw) = PID_update (pidYaw c1) (time_yaw rd)
                                         (snd (snd eulerIs)) (snd (snd eulerGoal));
                        msg = \<lparr>linear = \<lparr>vx = ox, vy = oy, vz = oz\<rparr>,
                               angular = \<lparr>vx = 0, vy = 0, vz = oyaw\<rparr>\<rparr>
                    in Inr (publish msg (c1\<lparr>pidX := px, pidY := py, pidZ := pz, pidYaw := pyaw\<rparr>))))
          | None \<Rightarrow> Inr (log (Err_CouldNotTransform (frame c1)) c1))
      else Inr c)"

text \<open>Lines 142 to 144.\<close>

definition phase_Idle :: "Controller \<Rightarrow> error + Controller" where
  "phase_Idle c = (if state c = Idle then Inr (publish Twist_new c) else Inr c)"

text \<open>One iteration of the second loop of \<^verbatim>\<open>run\<close>: the four \<^verbatim>\<open>if\<close> statements in
  sequence, each reading the \<^verbatim>\<open>state\<close> left by the ones before it.\<close>

definition tick :: "readings \<Rightarrow> Controller \<Rightarrow> error + Controller" where
  "tick rd c =
     bind_err (bind_err (bind_err (phase_TakingOff rd c) (phase_Landing rd)) (phase_Control rd))
       phase_Idle"

text \<open>What arrives between two ticks: the subscriber and service callbacks.\<close>

datatype event =
    GoalMsg Pose
  | TfMsg TransformStamped
  | TakeoffReq
  | LandReq

fun deliver :: "event \<Rightarrow> Controller \<Rightarrow> Controller" where
  "deliver (GoalMsg data) c = poseChanged data c"
| "deliver (TfMsg data) c = tfChanged data c"
| "deliver TakeoffReq c = takeoff c"
| "deliver LandReq c = land c"

text \<open>The second loop of \<^verbatim>\<open>run\<close> over a finite schedule: before each tick the callbacks
  of the events that arrived run, then the tick; an exception ends the loop.\<close>

fun run_ticks :: "(event list \<times> readings) list \<Rightarrow> Controller \<Rightarrow> error + Controller" where
  "run_ticks [] c = Inr c"
| "run_ticks ((evs, rd) # rest) c =
     bind_err (tick rd (fold deliver evs c)) (run_ticks rest)"

subsection \<open>Concrete situations\<close>

text \<open>A pose sample stamped at time 0 with the vehicle at height \<open>h\<close> above the origin and
  the identity orientation, clock readings that are all \<open>t\<close>, and the controller of frame
  \<^verbatim>\<open>cf\<close> in state \<open>m\<close> holding that sample.\<close>

definition tf_at_height :: "real \<Rightarrow> TransformStamped" where
  "tf_at_height h =
     \<lparr>stamp = 0, translation = \<lparr>vx = 0, vy = 0, vz = h\<rparr>,
      rotation = \<lparr>qx = 0, qy = 0, qz = 0, qw = 1\<rparr>\<rparr>"

definition readings_at :: "real \<Rightarrow> readings" where
  "readings_at t =
     \<lparr>now_takeoff = t, now_landing = t, now_control = t,
      time_x = t, time_y = t, time_z = t, time_yaw = t\<rparr>"

definition controller_at :: "mode \<Rightarrow> real \<Rightarrow> Controller" where
  "controller_at m h = (Controller_init ''cf'')\<lparr>state := m, lastTf := Some (tf_at_height h)\<rparr>"

text \<open>A controller that has flown before: the Y loop holds an accumulated integral and a
  previous error from the earlier flight, and a new take-off has been requested with the
  vehicle at height 1.\<close>

definition controller_reflown :: Controller where
  "controller_reflown =
     (controller_at TakingOff 1)
       \<lparr>pidY := (pidY (controller_at TakingOff 1))\<lparr>integral := 7, previousError := 3\<rparr>\<rparr>"

text \<open>The controller record without its log trace.\<close>

definition unlogged :: "Controller \<Rightarrow> Controller" where
  "unlogged c = c\<lparr>logged := []\<rparr>"

section \<open>Properties\<close>

subsection \<open>Auxiliary facts\<close>

lemma getTransform_Some:
  "lastTf c = Some tfm \<Longrightarrow>
   getTransform now c s t =
     Inr (if (now - stamp tfm) * 1000 > 25
          then log (Warn_HighTFLatency ((now - stamp tfm) * 1000)) c else c,
          Some (translation tfm, rotation tfm, stamp tfm))"
  by (simp add: getTransform_def Let_def)

lemma log_fields [simp]:
  "state (log e c) = state c" "lastTf (log e c) = lastTf c" "thrust (log e c) = thrust c"
  "published (log e c) = published c" "goal (log e c) = goal c" "frame (log e c) = frame c"
  "pidX (log e c) = pidX c" "pidY (log e c) = pidY c" "pidZ (log e c) = pidZ c"
  "pidYaw (log e c) = pidYaw c" "targetZ (log e c) = targetZ c"
  "logged (log e c) = logged c @ [e]"
  by (simp_all add: log_def)

lemmas tick_defs =
  tick_def phase_TakingOff_def phase_Landing_def phase_Control_def phase_Idle_def bind_err_def

lemma clamp_bounds: "lo \<le> hi \<Longrightarrow> lo \<le> clamp lo hi v \<and> clamp lo hi v \<le> hi"
  by (simp add: clamp_def)

lemma fst_PID_update:
  "\<exists>raw. fst (PID_update p t s m) = clamp (minOutput p) (maxOutput p) raw"
  by (auto simp add: PID_update_def Let_def)

subsection \<open>Idle\<close>

text \<open>
  Claim C8. On every tick in which the state is Idle, exactly one velocity command is
  emitted, all six of its components are zero, and the command is the same whatever the
  goal pose \<open>g\<close> and the latest pose sample \<open>l\<close> are (also when no sample has arrived).
\<close>

theorem idle_tick_zero_command:
  "state c = Idle \<Longrightarrow>
   \<exists>c'. tick rd (c\<lparr>goal := g, lastTf := l\<rparr>) = Inr c' \<and> state c' = Idle \<and>
     published c' = published c @
       [\<lparr>linear = \<lparr>vx = 0, vy = 0, vz = 0\<rparr>, angular = \<lparr>vx = 0, vy = 0, vz = 0\<rparr>\<rparr>]"
  by (simp add: tick_defs publish_def Twist_new_def Vector3_new_def)

theorem idle_tick_zero_command_witness:
  "state (Controller_init ''cf'') = Idle \<and>
   (\<exists>c'. tick (readings_at 1) ((Controller_init ''cf'')\<lparr>goal := Pose_new, lastTf := None\<rparr>) = Inr c' \<and>
     state c' = Idle \<and>
     published c' = published (Controller_init ''cf'') @
       [\<lparr>linear = \<lparr>vx = 0, vy = 0, vz = 0\<rparr>, angular = \<lparr>vx = 0, vy = 0, vz = 0\<rparr>\<rparr>])"
proof -
  have h: "state (Controller_init ''cf'') = Idle"
    by (simp add: Controller_init_def)
  from idle_tick_zero_command [OF h] h show ?thesis
    by blast
qed

subsection \<open>The thrust ramp of TakingOff\<close>

text \<open>
  Claim C7. On a TakingOff tick on which neither the height exceeds 0.05 nor the ramp
  exceeds 50000, the ramp grows by exactly 100 and the tick emits exactly one command,
  whose linear z component is the new ramp value and whose other five components are
  zero; the state stays TakingOff.
\<close>

theorem takingOff_ramp_tick:
  assumes "state c = TakingOff" and "lastTf c = Some tfm"
    and "vz (translation tfm) \<le> 0.05" and "thrust c \<le> 50000"
  shows "\<exists>c'. tick rd c = Inr c' \<and> thrust c' = thrust c + 100 \<and> state c' = TakingOff \<and>
     published c' = published c @
       [\<lparr>linear = \<lparr>vx = 0, vy = 0, vz = real_of_int (thrust c + 100)\<rparr>,
         angular = \<lparr>vx = 0, vy = 0, vz = 0\<rparr>\<rparr>]"
  using assms
  by (simp add: tick_defs getTransform_Some publish_def Twist_new_def Vector3_new_def Let_def)

theorem takingOff_ramp_tick_witness:
  "state (controller_at TakingOff 0) = TakingOff \<and>
   lastTf (controller_at TakingOff 0) = Some (tf_at_height 0) \<and>
   vz (translation (tf_at_height 0)) \<le> 0.05 \<and> thrust (controller_at TakingOff 0) \<le> 50000 \<and>
   (\<exists>c'. tick (readings_at 0) (controller_at TakingOff 0) = Inr c' \<and> thrust c' = 100 \<and>
      state c' = TakingOff \<and>
      published c' =
        [\<lparr>linear = \<lparr>vx = 0, vy = 0, vz = 100\<rparr>, angular = \<lparr>vx = 0, vy = 0, vz = 0\<rparr>\<rparr>])"
proof -
  have h1: "state (controller_at TakingOff 0) = TakingOff"
    and h2: "lastTf (controller_at TakingOff 0) = Some (tf_at_height 0)"
    and h3: "vz (translation (tf_at_height 0)) \<le> 0.05"
    and h4: "thrust (controller_at TakingOff 0) \<le> 50000"
    and h5: "thrust (controller_at TakingOff 0) = 0" "published (controller_at TakingOff 0) = []"
    by (simp_all add: controller_at_def Controller_init_def tf_at_height_def)
  from takingOff_ramp_tick [OF h1 h2 h3 h4, of "readings_at 0"] h1 h2 h3 h4 h5
  show ?thesis by simp
qed

subsection \<open>The reset at the end of TakingOff\<close>

lemma pidReset_skips_pidY:
  "pidY (pidReset c) = pidY c \<and>
   integral (pidX (pidReset c)) = 0 \<and> previousError (pidX (pidReset c)) = 0 \<and>
   integral (pidZ (pidReset c)) = 0 \<and> previousError (pidZ (pidReset c)) = 0 \<and>
   integral (pidYaw (pidReset c)) = 0 \<and> previousError (pidYaw (pidReset c)) = 0"
  by (simp add: pidReset_def PID_reset_def Let_def)

text \<open>
  Claim C1. The claim asks that the transition from TakingOff to Automatic zeroes the
  integral accumulator and the previous error of all four loops. \<^verbatim>\<open>pidReset\<close> resets the
  X loop, the Z loop twice and the yaw loop, and never the Y loop (the lemma above). For
  the controller that has flown before, the TakingOff phase of the tick moves to
  Automatic and leaves the Y loop with integral 7 and previous error 3.
\<close>

theorem reflown_takeoff_keeps_pidY:
  "map_sum id (\<lambda>c. (state c, integral (pidY c), previousError (pidY c)))
     (phase_TakingOff (readings_at 0) controller_reflown) = Inr (Automatic, 7, 3)"
  by (simp add: phase_TakingOff_def bind_err_def getTransform_def controller_reflown_def
      controller_at_def Controller_init_def tf_at_height_def readings_at_def pidReset_def
      PID_reset_def PID_new_def Let_def)

subsection \<open>The output limits of the PID loops\<close>

text \<open>
  Claim C5. Whatever the setpoint, the measurement, the clock reading and the stored
  integral, previous error and previous timestamp, the output of an update lies between
  the minimum and the maximum of the loop, for every loop whose minimum is not above its
  maximum; for the four loops of the controller that is between -20 and 20 (X and Y),
  10000 and 60000 (Z), and -200 and 200 (yaw).
\<close>

theorem PID_update_output_within_limits:
  "(minOutput p \<le> maxOutput p \<longrightarrow>
      minOutput p \<le> fst (PID_update p t s m) \<and> fst (PID_update p t s m) \<le> maxOutput p) \<and>
   (- 20 \<le> fst (PID_update ((pidX (Controller_init fr))\<lparr>integral := i, previousError := e, previousTime := pt\<rparr>) t s m) \<and>
    fst (PID_update ((pidX (Controller_init fr))\<lparr>integral := i, previousError := e, previousTime := pt\<rparr>) t s m) \<le> 20) \<and>
   (- 20 \<le> fst (PID_update ((pidY (Controller_init fr))\<lparr>integral := i, previousError := e, previousTime := pt\<rparr>) t s m) \<and>
    fst (PID_update ((pidY (Controller_init fr))\<lparr>integral := i, previousError := e, previousTime := pt\<rparr>) t s m) \<le> 20) \<and>
   (10000 \<le> fst (PID_update ((pidZ (Controller_init fr))\<lparr>integral := i, previousError := e, previousTime := pt\<rparr>) t s m) \<and>
    fst (PID_update ((pidZ (Controller_init fr))\<lparr>integral := i, previousError := e, previousTime := pt\<rparr>) t s m) \<le> 60000) \<and>
   (- 200 \<le> fst (PID_update ((pidYaw (Controller_init fr))\<lparr>integral := i, previousError := e, previousTime := pt\<rparr>) t s m) \<and>
    fst (PID_update ((pidYaw (Controller_init fr))\<lparr>integral := i, previousError := e, previousTime := pt\<rparr>) t s m) \<le> 200)"
proof -
  have gen: "minOutput q \<le> maxOutput q \<Longrightarrow>
      minOutput q \<le> fst (PID_update q t s m) \<and> fst (PID_update q t s m) \<le> maxOutput q" for q
    using fst_PID_update [of q t s m] clamp_bounds [of "minOutput q" "maxOutput q"] by auto
  have lims: "minOutput (pidX (Controller_init fr)) = - 20" "maxOutput (pidX (Controller_init fr)) = 20"
    "minOutput (pidY (Controller_init fr)) = - 20" "maxOutput (pidY (Controller_init fr)) = 20"
    "minOutput (pidZ (Controller_init fr)) = 10000" "maxOutput (pidZ (Controller_init fr)) = 60000"
    "minOutput (pidYaw (Controller_init fr)) = - 200" "maxOutput (pidYaw (Controller_init fr)) = 200"
    by (simp_all add: Controller_init_def PID_new_def)
  show ?thesis
    using gen [of p]
      gen [of "(pidX (Controller_init fr))\<lparr>integral := i, previousError := e, previousTime := pt\<rparr>"]
      gen [of "(pidY (Controller_init fr))\<lparr>integral := i, previousError := e, previousTime := pt\<rparr>"]
      gen [of "(pidZ (Controller_init fr))\<lparr>integral := i, previousError := e, previousTime := pt\<rparr>"]
      gen [of "(pidYaw (Controller_init fr))\<lparr>integral := i, previousError := e, previousTime := pt\<rparr>"]
    by (simp add: lims)
qed

theorem PID_update_output_within_limits_witness:
  "minOutput (pidZ (Controller_init ''cf'')) \<le> maxOutput (pidZ (Controller_init ''cf'')) \<and>
   fst (PID_update (pidZ (Controller_init ''cf'')) 1 0 (- 1000)) = 60000 \<and>
   minOutput (pidZ (Controller_init ''cf'')) \<le> fst (PID_update (pidZ (Controller_init ''cf'')) 1 0 (- 1000)) \<and>
   fst (PID_update (pidZ (Controller_init ''cf'')) 1 0 (- 1000)) \<le> maxOutput (pidZ (Controller_init ''cf''))"
proof -
  have h: "minOutput (pidZ (Controller_init ''cf'')) \<le> maxOutput (pidZ (Controller_init ''cf''))"
    by (simp add: Controller_init_def PID_new_def)
  have v: "fst (PID_update (pidZ (Controller_init ''cf'')) 1 0 (- 1000)) = 60000"
    by (simp add: Controller_init_def PID_new_def PID_update_def clamp_def Let_def)
  from PID_update_output_within_limits [of "pidZ (Controller_init ''cf'')" 1 0 "- 1000"] h v
  show ?thesis by simp
qed

end
